theory Spec2Isabelle
  imports Main "HOL-Library.AList"
begin

section \<open>The signaling relay (api/sockets/videoCallSocketHandler.js)\<close>

text \<open>
  Socket ids are strings. The relay keeps two maps keyed by socket id, both JavaScript
  \<^verbatim>\<open>Map\<close>s (insertion ordered, one entry per key):
  \<^item> \<^verbatim>\<open>connectedUsers\<close>, the handler's own registry (line 20), an association list here;
  \<^item> \<^verbatim>\<open>io.sockets.sockets\<close>, the live sockets of Socket.IO, which the handlers query with
    \<^verbatim>\<open>has\<close> (lines 73, 107); only its keys matter, so it is the list of live ids.
  Socket.IO adds a socket to its map before it calls the \<^verbatim>\<open>connection\<close> handler and
  removes it before it fires \<^verbatim>\<open>disconnect\<close>.
\<close>

type_synonym socket_id = string

record conn_info =
  connectedAt :: string
  socketId :: socket_id

record relay =
  connectedUsers :: "(socket_id \<times> conn_info) list"
  sockets :: "socket_id list"

text \<open>Events the relay emits; the payload type \<open>'p\<close> is whatever the clients send as signal.\<close>

datatype 'p server_event =
    MeEv socket_id
  | CallUserEv 'p socket_id string
  | CallAcceptedEv 'p
  | CallEndedEv socket_id
  | CallErrorEv string

text \<open>Events a client sends: \<^verbatim>\<open>callUser {userToCall, signalData, from, name}\<close> and
  \<^verbatim>\<open>answerCall {to, signal}\<close>.\<close>

datatype 'p client_msg =
    CallUserMsg socket_id 'p socket_id string
  | AnswerCallMsg socket_id 'p

text \<open>A delivery is an event put on the transport of one socket.\<close>

type_synonym 'p delivery = "socket_id \<times> 'p server_event"

definition relay_init :: relay where
  "relay_init = \<lparr>connectedUsers = [], sockets = []\<rparr>"

text \<open>Socket.IO's own bookkeeping of \<^verbatim>\<open>io.sockets.sockets\<close>.\<close>

definition io_connect :: "socket_id \<Rightarrow> relay \<Rightarrow> relay" where
  "io_connect sid r =
     r\<lparr>sockets := (if sid \<in> set (sockets r) then sockets r else sockets r @ [sid])\<rparr>"

definition io_disconnect :: "socket_id \<Rightarrow> relay \<Rightarrow> relay" where
  "io_disconnect sid r = r\<lparr>sockets := removeAll sid (sockets r)\<rparr>"

text \<open>\<^verbatim>\<open>io.sockets.sockets.has(id)\<close>: the liveness check of lines 73 and 107.\<close>

definition isLive :: "relay \<Rightarrow> socket_id \<Rightarrow> bool" where
  "isLive r sid = (sid \<in> set (sockets r))"

text \<open>The \<^verbatim>\<open>connection\<close> handler (lines 22-37): \<^verbatim>\<open>connectedUsers.set\<close>, then
  \<^verbatim>\<open>socket.emit("me", socket.id)\<close>. The timestamp is the clock's, a parameter here.\<close>

definition on_connection :: "socket_id \<Rightarrow> string \<Rightarrow> relay \<Rightarrow> relay \<times> 'p delivery list" where
  "on_connection sid now r =
     (r\<lparr>connectedUsers :=
          AList.update sid \<lparr>connectedAt = now, socketId = sid\<rparr> (connectedUsers r)\<rparr>,
      [(sid, MeEv sid)])"

text \<open>The \<^verbatim>\<open>disconnect\<close> handler (lines 43-52): \<^verbatim>\<open>connectedUsers.delete\<close>, then
  \<^verbatim>\<open>socket.broadcast.emit("callEnded", ...)\<close> to every live socket but this one.\<close>

definition on_disconnect :: "socket_id \<Rightarrow> relay \<Rightarrow> relay \<times> 'p delivery list" where
  "on_disconnect sid r =
     (r\<lparr>connectedUsers := AList.delete sid (connectedUsers r)\<rparr>,
      map (\<lambda>t. (t, CallEndedEv sid)) (filter (\<lambda>t. t \<noteq> sid) (sockets r)))"

text \<open>The \<^verbatim>\<open>callUser\<close> handler (lines 69-87) of the socket \<open>sid\<close>.\<close>

definition on_callUser_msg ::
  "socket_id \<Rightarrow> socket_id \<Rightarrow> 'p \<Rightarrow> socket_id \<Rightarrow> string \<Rightarrow> relay \<Rightarrow> 'p delivery list" where
  "on_callUser_msg sid userToCall signalData frm nm r =
     (if \<not> isLive r userToCall
      then [(sid, CallErrorEv ''User not found or disconnected'')]
      else [(userToCall, CallUserEv signalData frm nm)])"

text \<open>The \<^verbatim>\<open>answerCall\<close> handler (lines 102-116) of the socket \<open>sid\<close>.\<close>

definition on_answerCall_msg ::
  "socket_id \<Rightarrow> socket_id \<Rightarrow> 'p \<Rightarrow> relay \<Rightarrow> 'p delivery list" where
  "on_answerCall_msg sid to signal r =
     (if \<not> isLive r to
      then [(sid, CallErrorEv ''Caller disconnected'')]
      else [(to, CallAcceptedEv signal)])"

text \<open>What happens at the relay: a transport connects (with the time of the clock), a
  transport is lost, or a connected socket sends a message.\<close>

datatype 'p relay_event =
    Connection socket_id string
  | Disconnect socket_id
  | FromClient socket_id "'p client_msg"

fun relay_step :: "relay \<Rightarrow> 'p relay_event \<Rightarrow> relay \<times> 'p delivery list" where
  "relay_step r (Connection sid now) = on_connection sid now (io_connect sid r)"
| "relay_step r (Disconnect sid) = on_disconnect sid (io_disconnect sid r)"
| "relay_step r (FromClient sid (CallUserMsg userToCall signalData frm nm)) =
     (r, on_callUser_msg sid userToCall signalData frm nm r)"
| "relay_step r (FromClient sid (AnswerCallMsg to signal)) =
     (r, on_answerCall_msg sid to signal r)"

fun relay_run :: "relay \<Rightarrow> 'p relay_event list \<Rightarrow> relay" where
  "relay_run r [] = r"
| "relay_run r (e # es) = relay_run (fst (relay_step r e)) es"

text \<open>The registry as the specification words it: the ids registered and not yet
  unregistered, over a sequence of events.\<close>

fun registered :: "socket_id set \<Rightarrow> 'p relay_event list \<Rightarrow> socket_id set" where
  "registered S [] = S"
| "registered S (Connection sid now # es) = registered (insert sid S) es"
| "registered S (Disconnect sid # es) = registered (S - {sid}) es"
| "registered S (FromClient sid m # es) = registered S es"

section \<open>The participant's call state (the React context provider, source file part_001)\<close>

text \<open>
  A \<^verbatim>\<open>MediaStreamTrack\<close> is an object of the browser; it is known here by a number, and a
  \<^verbatim>\<open>MediaStream\<close> by the tracks \<^verbatim>\<open>getTracks()\<close> returns. Signal data is what a
  simple-peer \<^verbatim>\<open>Peer\<close> produces, an opaque blob; where the source reads a field that may
  be missing (\<^verbatim>\<open>undefined\<close>) the type is an option.
\<close>

type_synonym track = nat
type_synonym media_stream = "track list"
type_synonym sdp = string

text \<open>The \<^verbatim>\<open>call\<close> state is \<^verbatim>\<open>{}\<close> (lines 62, 201) or
  \<^verbatim>\<open>{isReceivingCall: true, from, name, signal}\<close> (lines 279-284); nothing else is ever
  stored in it.\<close>

datatype call_info =
    EmptyCall
  | IncomingCall socket_id string "sdp option"

fun isReceivingCall :: "call_info \<Rightarrow> bool" where
  "isReceivingCall EmptyCall = False"
| "isReceivingCall (IncomingCall frm nm sg) = True"

text \<open>A \<^verbatim>\<open>Peer\<close> with the options it was built with and what its handlers captured: the
  \<^verbatim>\<open>signal\<close> handler of \<^verbatim>\<open>callUser\<close> holds \<^verbatim>\<open>id\<close>, \<^verbatim>\<open>me\<close> and \<^verbatim>\<open>name\<close> (lines 453-461),
  that of \<^verbatim>\<open>answerCall\<close> holds \<^verbatim>\<open>call.from\<close> (lines 370-376); the \<^verbatim>\<open>error\<close> handler holds the
  \<^verbatim>\<open>handleCallEnd\<close> of the render that built the peer, which in turn holds that render's
  \<^verbatim>\<open>stream\<close> and \<^verbatim>\<open>userStream\<close> (line 206).\<close>

datatype signal_handler =
    SendOffer socket_id socket_id string
  | SendAnswer socket_id

record peer =
  initiator :: bool
  trickle :: bool
  peer_stream :: media_stream
  on_signal :: signal_handler
  captured_streams :: "media_stream option \<times> media_stream option"

text \<open>What a handler does to the world outside the React state, in the order it does it.\<close>

datatype effect =
    Alert string
  | PeerNew peer
  | PeerSignal peer "sdp option"
  | PeerDestroy peer
  | TrackStop track
  | SocketEmit "sdp client_msg"

fun is_emit :: "effect \<Rightarrow> bool" where
  "is_emit (SocketEmit m) = True"
| "is_emit e = False"

fun is_peer_new :: "effect \<Rightarrow> bool" where
  "is_peer_new (PeerNew p) = True"
| "is_peer_new e = False"

datatype conn_status = StDisconnected | StConnecting | StConnected | StError

text \<open>The state of \<^verbatim>\<open>ContextProvider\<close> (lines 60-103): the \<^verbatim>\<open>useState\<close> values, the
  \<^verbatim>\<open>useRef\<close> cells the socket handlers read, and the tracks \<^verbatim>\<open>stop()\<close> has ended (state of
  the browser, which a stream shares with every reference to it).\<close>

record participant =
  callAccepted :: bool
  callEnded :: bool
  call :: call_info
  stream :: "media_stream option"
  userStream :: "media_stream option"
  name :: string
  me :: socket_id
  connectionStatus :: conn_status
  isCalling :: bool
  connectionRef :: "peer option"
  callAcceptedRef :: bool
  callRef :: call_info
  userStreamRef :: "media_stream option"
  endedTracks :: "track set"

definition initial :: participant where
  "initial = \<lparr>callAccepted = False, callEnded = False, call = EmptyCall, stream = None,
     userStream = None, name = [], me = [], connectionStatus = StDisconnected,
     isCalling = False, connectionRef = None, callAcceptedRef = False, callRef = EmptyCall,
     userStreamRef = None, endedTracks = {}\<rparr>"

text \<open>The three effects of lines 93-103, which React runs after a render whose state
  changed: they copy the state into the refs.\<close>

definition sync_refs :: "participant \<Rightarrow> participant" where
  "sync_refs s = s\<lparr>callAcceptedRef := callAccepted s, callRef := call s,
     userStreamRef := userStream s\<rparr>"

definition refs_synced :: "participant \<Rightarrow> bool" where
  "refs_synced s = (callAcceptedRef s = callAccepted s \<and> callRef s = call s \<and>
     userStreamRef s = userStream s)"

fun tracks_of :: "media_stream option \<Rightarrow> track list" where
  "tracks_of None = []"
| "tracks_of (Some ts) = ts"

text \<open>\<^verbatim>\<open>handleCallEnd\<close> (lines 167-206). Its first two arguments are the \<^verbatim>\<open>stream\<close> and
  \<^verbatim>\<open>userStream\<close> its closure captured (the dependency list of line 206); everything else
  it reads or writes is the current state. \<^verbatim>\<open>destroy()\<close> and \<^verbatim>\<open>stop()\<close> return normally, so
  the \<^verbatim>\<open>try\<close> block runs to its end.\<close>

definition handleCallEnd ::
  "media_stream option \<Rightarrow> media_stream option \<Rightarrow> participant \<Rightarrow> participant \<times> effect list" where
  "handleCallEnd stream0 userStream0 s =
     (s\<lparr>callEnded := True, callAccepted := False, isCalling := False,
        connectionRef := None,
        endedTracks := endedTracks s \<union> set (tracks_of stream0) \<union> set (tracks_of userStream0),
        userStream := None, call := EmptyCall\<rparr>,
      (case connectionRef s of None \<Rightarrow> [] | Some p \<Rightarrow> [PeerDestroy p]) @
      map TrackStop (tracks_of stream0) @ map TrackStop (tracks_of userStream0))"

text \<open>The socket handlers of \<^verbatim>\<open>initializeSocket\<close> (lines 211-330).\<close>

definition on_me :: "socket_id \<Rightarrow> participant \<Rightarrow> participant" where
  "on_me sid s = (if sid \<noteq> [] then s\<lparr>me := sid, connectionStatus := StConnected\<rparr> else s)"

definition on_callUser :: "socket_id \<Rightarrow> string \<Rightarrow> sdp option \<Rightarrow> participant \<Rightarrow> participant" where
  "on_callUser frm callerName signal s = s\<lparr>call := IncomingCall frm callerName signal\<rparr>"

definition on_callAccepted :: "sdp option \<Rightarrow> participant \<Rightarrow> participant \<times> effect list" where
  "on_callAccepted signal s =
     (s\<lparr>callAccepted := True\<rparr>,
      (case connectionRef s of None \<Rightarrow> [] | Some p \<Rightarrow> [PeerSignal p signal]))"

text \<open>Line 304: the test of the \<^verbatim>\<open>callEnded\<close> handler, on the refs.\<close>

definition isInCall :: "participant \<Rightarrow> bool" where
  "isInCall s = (callAcceptedRef s \<or> isReceivingCall (callRef s) \<or>
     connectionRef s \<noteq> None \<or> userStreamRef s \<noteq> None)"

text \<open>The \<^verbatim>\<open>callEnded\<close> handler (lines 300-317). \<^verbatim>\<open>initializeSocket\<close> runs once, from the
  mount effect (lines 109-114, dependency list \<^verbatim>\<open>[]\<close>), so the \<^verbatim>\<open>handleCallEnd\<close> this handler
  calls is the one of the first render, whose closure holds the initial \<^verbatim>\<open>stream\<close> and
  \<^verbatim>\<open>userStream\<close>. The id the event carries is only logged.\<close>

definition on_callEnded :: "socket_id option \<Rightarrow> participant \<Rightarrow> participant \<times> effect list" where
  "on_callEnded disconnectedUserId s =
     (if isInCall s then handleCallEnd (stream initial) (userStream initial) s else (s, []))"

definition on_callError :: "string \<Rightarrow> participant \<Rightarrow> participant \<times> effect list" where
  "on_callError message s = (s\<lparr>isCalling := False\<rparr>, [Alert (''Call error: '' @ message)])"

text \<open>\<^verbatim>\<open>String.prototype.trim\<close> removes white space and line terminators; of the
  characters a \<^typ>\<open>char\<close> holds these are the ones below. \<^verbatim>\<open>!id || id.trim() === ''\<close>
  (line 423) holds of a string exactly when every character of it is one of them.\<close>

definition js_space :: "char \<Rightarrow> bool" where
  "js_space c = (c \<in> {CHR 0x09, CHR 0x0A, CHR 0x0B, CHR 0x0C, CHR 0x0D, CHR 0x20, CHR 0xA0})"

definition blank :: "string \<Rightarrow> bool" where
  "blank str = list_all js_space str"

text \<open>\<^verbatim>\<open>callUser\<close> (lines 422-490), called from the latest render, so its closure holds
  the current \<^verbatim>\<open>stream\<close>, \<^verbatim>\<open>me\<close> and \<^verbatim>\<open>name\<close>. \<open>peer_ok\<close> says whether \<^verbatim>\<open>new Peer\<close>
  returns or throws (the \<^verbatim>\<open>catch\<close> of lines 485-489).\<close>

definition callUser :: "bool \<Rightarrow> string \<Rightarrow> participant \<Rightarrow> participant \<times> effect list" where
  "callUser peer_ok ident s =
     (if blank ident then (s, [])
      else case stream s of
        None \<Rightarrow> (s, [Alert ''Please enable your camera first!''])
      | Some st \<Rightarrow>
          if ident = me s then (s, [Alert ''You cannot call yourself!''])
          else if peer_ok then
            (let p = \<lparr>initiator = True, trickle = False, peer_stream = st,
                      on_signal = SendOffer ident (me s) (name s),
                      captured_streams = (stream s, userStream s)\<rparr>
             in (s\<lparr>isCalling := True, callEnded := False, connectionRef := Some p\<rparr>,
                 [PeerNew p]))
          else (s\<lparr>isCalling := False, callEnded := False\<rparr>,
                [Alert ''Failed to initiate call. Please try again.'']))"

text \<open>\<^verbatim>\<open>!call.signal\<close> (line 351) holds when the signal is missing and when it is the
  empty string; \<open>signal_given\<close> is its negation.\<close>

definition signal_given :: "sdp option \<Rightarrow> bool" where
  "signal_given sg = (case sg of None \<Rightarrow> False | Some d \<Rightarrow> d \<noteq> [])"

text \<open>\<^verbatim>\<open>answerCall\<close> (lines 344-406), called from the latest render. With the empty
  \<^verbatim>\<open>call\<close> the signal is missing. When \<^verbatim>\<open>new Peer\<close> throws, the \<^verbatim>\<open>catch\<close> of lines 401-405
  runs \<^verbatim>\<open>handleCallEnd\<close> after the two state updates of lines 358-359.\<close>

definition answerCall :: "bool \<Rightarrow> participant \<Rightarrow> participant \<times> effect list" where
  "answerCall peer_ok s =
     (case stream s of
        None \<Rightarrow> (s, [Alert ''Please enable your camera first!''])
      | Some st \<Rightarrow>
          (case call s of
             EmptyCall \<Rightarrow> (s, [])
           | IncomingCall frm nm sg \<Rightarrow>
               if \<not> signal_given sg then (s, [])
               else if peer_ok then
                 (let p = \<lparr>initiator = False, trickle = False, peer_stream = st,
                           on_signal = SendAnswer frm,
                           captured_streams = (stream s, userStream s)\<rparr>
                  in (s\<lparr>callAccepted := True, isCalling := False, connectionRef := Some p\<rparr>,
                      [PeerNew p, PeerSignal p sg]))
               else
                 (let r = handleCallEnd (stream s) (userStream s)
                            (s\<lparr>callAccepted := True, isCalling := False\<rparr>)
                  in (fst r, Alert ''Failed to answer call. Please try again.'' # snd r))))"

text \<open>\<^verbatim>\<open>leaveCall\<close> (lines 495-498), called from the latest render: its \<^verbatim>\<open>handleCallEnd\<close>
  holds the current \<^verbatim>\<open>stream\<close> and \<^verbatim>\<open>userStream\<close>.\<close>

definition leaveCall :: "participant \<Rightarrow> participant \<times> effect list" where
  "leaveCall s = handleCallEnd (stream s) (userStream s) s"

text \<open>The handlers a peer was given (lines 370-393 and 453-480).\<close>

definition peer_signal :: "peer \<Rightarrow> sdp \<Rightarrow> effect list" where
  "peer_signal p d =
     (case on_signal p of
        SendOffer ident frm nm \<Rightarrow>
          [SocketEmit (CallUserMsg ident d frm (if nm = [] then ''Anonymous'' else nm))]
      | SendAnswer dest \<Rightarrow> [SocketEmit (AnswerCallMsg dest d)])"

definition peer_stream_ready :: "media_stream \<Rightarrow> participant \<Rightarrow> participant" where
  "peer_stream_ready currentStream s = s\<lparr>userStream := Some currentStream\<rparr>"

definition peer_connect :: "peer \<Rightarrow> participant \<Rightarrow> participant" where
  "peer_connect p s = (if initiator p then s\<lparr>isCalling := False\<rparr> else s)"

definition peer_error :: "peer \<Rightarrow> participant \<Rightarrow> participant \<times> effect list" where
  "peer_error p s =
     (let r = handleCallEnd (fst (captured_streams p)) (snd (captured_streams p))
                (if initiator p then s\<lparr>isCalling := False\<rparr> else s)
      in (fst r, Alert ''Connection error occurred. Please try again.'' # snd r))"

text \<open>\<^verbatim>\<open>setStream\<close>, which the provider hands to the camera switch (line 538).\<close>

definition setStream :: "media_stream option \<Rightarrow> participant \<Rightarrow> participant" where
  "setStream v s = s\<lparr>stream := v\<rparr>"

text \<open>One event of a participant's single event queue: an event of the socket, a click in
  the interface, or an event of the peer in \<^verbatim>\<open>connectionRef\<close>. Between two events React
  renders and runs the effects, which is \<^const>\<open>sync_refs\<close>.\<close>

datatype participant_event =
    EvMe socket_id
  | EvCallUser socket_id string "sdp option"
  | EvCallAccepted "sdp option"
  | EvCallEnded "socket_id option"
  | EvCallError string
  | DoSetStream "media_stream option"
  | DoCallUser bool string
  | DoAnswerCall bool
  | DoLeaveCall
  | PeerStreamReady media_stream
  | PeerConnected
  | PeerFailed

fun participant_step :: "participant \<Rightarrow> participant_event \<Rightarrow> participant \<times> effect list" where
  "participant_step s (EvMe sid) = (on_me sid s, [])"
| "participant_step s (EvCallUser frm nm sg) = (on_callUser frm nm sg s, [])"
| "participant_step s (EvCallAccepted sg) = on_callAccepted sg s"
| "participant_step s (EvCallEnded d) = on_callEnded d s"
| "participant_step s (EvCallError m) = on_callError m s"
| "participant_step s (DoSetStream v) = (setStream v s, [])"
| "participant_step s (DoCallUser ok ident) = callUser ok ident s"
| "participant_step s (DoAnswerCall ok) = answerCall ok s"
| "participant_step s DoLeaveCall = leaveCall s"
| "participant_step s (PeerStreamReady ms) = (peer_stream_ready ms s, [])"
| "participant_step s PeerConnected =
     (case connectionRef s of None \<Rightarrow> (s, []) | Some p \<Rightarrow> (peer_connect p s, []))"
| "participant_step s PeerFailed =
     (case connectionRef s of None \<Rightarrow> (s, []) | Some p \<Rightarrow> peer_error p s)"

fun participant_run :: "participant \<Rightarrow> participant_event list \<Rightarrow> participant" where
  "participant_run s [] = s"
| "participant_run s (e # es) = participant_run (sync_refs (fst (participant_step s e))) es"

text \<open>The scenario of the specification, seen from \<^verbatim>\<open>B2\<close>: it has its id and a camera
  stream of two tracks, receives the offer of \<^verbatim>\<open>A1\<close>, accepts it and gets the remote
  stream; the call is then active.\<close>

definition b2_active :: participant where
  "b2_active = participant_run initial
     [EvMe ''B2'', DoSetStream (Some [1, 2]), EvCallUser ''A1'' ''Alice'' (Some ''OFFER-XYZ''),
      DoAnswerCall True, PeerStreamReady [3, 4]]"

text \<open>Concrete states of the relay: \<^verbatim>\<open>A1\<close> and \<^verbatim>\<open>B2\<close> connected; the same after \<^verbatim>\<open>B2\<close>
  was lost; and a third participant \<^verbatim>\<open>C3\<close> connected as well.\<close>

definition relay_a1_b2 :: relay where
  "relay_a1_b2 = relay_run relay_init
     [Connection ''A1'' ''2025-01-01T10:00:00.000Z'',
      Connection ''B2'' ''2025-01-01T10:00:05.000Z'' :: sdp relay_event]"

definition relay_b2_gone :: relay where
  "relay_b2_gone = relay_run relay_init
     [Connection ''A1'' ''2025-01-01T10:00:00.000Z'',
      Connection ''B2'' ''2025-01-01T10:00:05.000Z'',
      Disconnect ''B2'' :: sdp relay_event]"

definition relay_three :: relay where
  "relay_three = relay_run relay_init
     [Connection ''A1'' ''2025-01-01T10:00:00.000Z'',
      Connection ''B2'' ''2025-01-01T10:00:05.000Z'',
      Connection ''C3'' ''2025-01-01T10:00:09.000Z'' :: sdp relay_event]"

text \<open>The peer \<^verbatim>\<open>B2\<close> built when it answered, and \<^verbatim>\<open>A1\<close> with its id, with and without a
  camera stream.\<close>

definition b2_peer :: peer where
  "b2_peer = \<lparr>initiator = False, trickle = False, peer_stream = [1, 2],
     on_signal = SendAnswer ''A1'', captured_streams = (Some [1, 2], None)\<rparr>"

definition a1_ready :: participant where
  "a1_ready = participant_run initial [EvMe ''A1'', DoSetStream (Some [5, 6])]"

definition a1_no_camera :: participant where
  "a1_no_camera = participant_run initial [EvMe ''A1'']"

text \<open>The same scenario seen from \<^verbatim>\<open>A1\<close>, the initiator: it calls \<^verbatim>\<open>B2\<close>, receives the
  answer and the remote stream, and the peers connect.\<close>

definition a1_peer :: peer where
  "a1_peer = \<lparr>initiator = True, trickle = False, peer_stream = [5, 6],
     on_signal = SendOffer ''B2'' ''A1'' [], captured_streams = (Some [5, 6], None)\<rparr>"

definition a1_active :: participant where
  "a1_active = participant_run initial
     [EvMe ''A1'', DoSetStream (Some [5, 6]), DoCallUser True ''B2'',
      EvCallAccepted (Some ''ANSWER-XYZ''), PeerStreamReady [7, 8], PeerConnected]"

section \<open>Properties of the relay\<close>

lemma relay_step_sockets:
  "set (sockets (fst (relay_step r e))) =
     (case e of Connection sid now \<Rightarrow> insert sid (set (sockets r))
      | Disconnect sid \<Rightarrow> set (sockets r) - {sid}
      | FromClient sid m \<Rightarrow> set (sockets r))"
proof (cases e)
  case (FromClient sid m)
  then show ?thesis by (cases m) simp_all
qed (auto simp: on_connection_def on_disconnect_def io_connect_def io_disconnect_def)

lemma keys_delete: "fst ` set (AList.delete k al) = fst ` set al - {k}"
  by (induction al) auto

lemma relay_step_users:
  "fst ` set (connectedUsers (fst (relay_step r e))) =
     (case e of Connection sid now \<Rightarrow> insert sid (fst ` set (connectedUsers r))
      | Disconnect sid \<Rightarrow> fst ` set (connectedUsers r) - {sid}
      | FromClient sid m \<Rightarrow> fst ` set (connectedUsers r))"
proof (cases e)
  case (FromClient sid m)
  then show ?thesis by (cases m) simp_all
qed (simp_all add: on_connection_def on_disconnect_def io_connect_def io_disconnect_def
       dom_update keys_delete)

lemma relay_run_sockets:
  "set (sockets (relay_run r es)) = registered (set (sockets r)) es"
proof (induction es arbitrary: r)
  case Nil
  show ?case by simp
next
  case (Cons e es)
  show ?case
    by (cases e) (simp_all add: Cons.IH relay_step_sockets del: relay_step.simps)
qed

lemma relay_run_users:
  "fst ` set (connectedUsers (relay_run r es)) = registered (fst ` set (connectedUsers r)) es"
proof (induction es arbitrary: r)
  case Nil
  show ?case by simp
next
  case (Cons e es)
  show ?case
    by (cases e) (simp_all add: Cons.IH relay_step_users del: relay_step.simps)
qed

lemma disconnect_absent:
  assumes "sid \<notin> set (sockets r)" and "sid \<notin> fst ` set (connectedUsers r)"
  shows "fst (relay_step r (Disconnect sid)) = r"
  using assms by (simp add: on_disconnect_def io_disconnect_def)

lemma relay_a1_b2_eq:
  "relay_a1_b2 =
     \<lparr>connectedUsers =
        [(''A1'', \<lparr>connectedAt = ''2025-01-01T10:00:00.000Z'', socketId = ''A1''\<rparr>),
         (''B2'', \<lparr>connectedAt = ''2025-01-01T10:00:05.000Z'', socketId = ''B2''\<rparr>)],
      sockets = [''A1'', ''B2'']\<rparr>"
  by (simp add: relay_a1_b2_def relay_init_def on_connection_def io_connect_def)

lemma relay_b2_gone_eq:
  "relay_b2_gone =
     \<lparr>connectedUsers =
        [(''A1'', \<lparr>connectedAt = ''2025-01-01T10:00:00.000Z'', socketId = ''A1''\<rparr>)],
      sockets = [''A1'']\<rparr>"
  by (simp add: relay_b2_gone_def relay_init_def on_connection_def on_disconnect_def
      io_connect_def io_disconnect_def)

lemma relay_three_sockets: "sockets relay_three = [''A1'', ''B2'', ''C3'']"
  by (simp add: relay_three_def relay_init_def on_connection_def io_connect_def)

text \<open>
  \<^bold>\<open>C3.\<close> An offer whose destination is not live when the relay handles it produces
  exactly one delivery, the \<^verbatim>\<open>callError\<close> event on the socket that sent the offer; nothing
  goes to any other socket (the dead destination included), and the relay's state is
  unchanged.
\<close>

theorem offer_to_dead_peer:
  assumes "\<not> isLive r userToCall"
  shows "relay_step r (FromClient sid (CallUserMsg userToCall signalData frm nm)) =
           (r, [(sid, CallErrorEv ''User not found or disconnected'')]) \<and>
         filter (\<lambda>d. fst d \<noteq> sid)
           (snd (relay_step r (FromClient sid (CallUserMsg userToCall signalData frm nm)))) = []"
  using assms by (simp add: on_callUser_msg_def)

text \<open>\<^verbatim>\<open>A1\<close> calls \<^verbatim>\<open>B2\<close> after \<^verbatim>\<open>B2\<close> was lost.\<close>

theorem offer_to_dead_peer_witness:
  "\<not> isLive relay_b2_gone ''B2'' \<and>
   relay_step relay_b2_gone
       (FromClient ''A1'' (CallUserMsg ''B2'' ''OFFER-XYZ'' ''A1'' ''Alice'')) =
     (relay_b2_gone, [(''A1'', CallErrorEv ''User not found or disconnected'')])"
proof -
  have dead: "\<not> isLive relay_b2_gone ''B2''"
    by (simp add: relay_b2_gone_eq isLive_def)
  from offer_to_dead_peer [OF dead, of "''A1''" "''OFFER-XYZ''" "''A1''" "''Alice''"] dead
  show ?thesis by simp
qed

text \<open>
  \<^bold>\<open>C4.\<close> After any sequence of events from the empty relay, the live sockets the
  liveness check reads and the keys of \<^verbatim>\<open>connectedUsers\<close> are both exactly the ids that
  were registered and not unregistered since; and a disconnect of an id that is not
  registered leaves the relay's state as it was.
\<close>

theorem registry_exact:
  "set (sockets (relay_run relay_init es)) = registered {} es \<and>
   fst ` set (connectedUsers (relay_run relay_init es)) = registered {} es \<and>
   isLive (relay_run relay_init es) sid = (sid \<in> registered {} es) \<and>
   (sid \<notin> registered {} es \<longrightarrow>
      fst (relay_step (relay_run relay_init es) (Disconnect sid :: 'p relay_event)) =
        relay_run relay_init es)"
  for es :: "'p relay_event list"
proof -
  have s: "set (sockets (relay_run relay_init es)) = registered {} es"
    using relay_run_sockets [of relay_init es] by (simp add: relay_init_def)
  have u: "fst ` set (connectedUsers (relay_run relay_init es)) = registered {} es"
    using relay_run_users [of relay_init es] by (simp add: relay_init_def)
  have d: "fst (relay_step (relay_run relay_init es) (Disconnect sid :: 'p relay_event)) =
      relay_run relay_init es"
    if "sid \<notin> registered {} es"
  proof (rule disconnect_absent)
    show "sid \<notin> set (sockets (relay_run relay_init es))" using that s by simp
    show "sid \<notin> fst ` set (connectedUsers (relay_run relay_init es))" using that u by simp
  qed
  from s u d show ?thesis by (simp add: isLive_def)
qed

text \<open>\<^verbatim>\<open>A1\<close> and \<^verbatim>\<open>B2\<close> connect, \<^verbatim>\<open>B2\<close> is lost, and a second disconnect of \<^verbatim>\<open>B2\<close> arrives.\<close>

theorem registry_exact_witness:
  "''B2'' \<notin> registered {}
      [Connection ''A1'' ''2025-01-01T10:00:00.000Z'',
       Connection ''B2'' ''2025-01-01T10:00:05.000Z'', Disconnect ''B2'' :: sdp relay_event] \<and>
   fst (relay_step relay_b2_gone (Disconnect ''B2'' :: sdp relay_event)) = relay_b2_gone \<and>
   isLive relay_b2_gone ''A1'' \<and> \<not> isLive relay_b2_gone ''B2'' \<and>
   \<not> isLive relay_b2_gone ''C3''"
proof -
  let ?es = "[Connection ''A1'' ''2025-01-01T10:00:00.000Z'',
       Connection ''B2'' ''2025-01-01T10:00:05.000Z'', Disconnect ''B2'' :: sdp relay_event]"
  have absent: "''B2'' \<notin> registered {} ?es" by simp
  have a: "''A1'' \<in> registered {} ?es" by simp
  have c: "''C3'' \<notin> registered {} ?es" by simp
  from registry_exact [of ?es "''B2''"] registry_exact [of ?es "''A1''"]
       registry_exact [of ?es "''C3''"] absent a c
  show ?thesis unfolding relay_b2_gone_def by blast
qed

text \<open>
  \<^bold>\<open>C5.\<close> When the destination is live, the relay delivers to it one \<^verbatim>\<open>callUser\<close> event
  carrying the very \<^verbatim>\<open>signalData\<close>, \<^verbatim>\<open>from\<close> and \<^verbatim>\<open>name\<close> of the offer, and for an answer
  one \<^verbatim>\<open>callAccepted\<close> event carrying the very \<^verbatim>\<open>signal\<close>; this holds for every type of
  payload.
\<close>

theorem relay_payload_opaque:
  assumes "isLive r dest"
  shows "snd (relay_step r (FromClient sid (CallUserMsg dest signalData frm nm))) =
           [(dest, CallUserEv signalData frm nm)] \<and>
         snd (relay_step r (FromClient sid (AnswerCallMsg dest signal))) =
           [(dest, CallAcceptedEv signal)]"
  using assms by (simp add: on_callUser_msg_def on_answerCall_msg_def)

text \<open>The scenario of the specification: \<^verbatim>\<open>OFFER-XYZ\<close> to \<^verbatim>\<open>B2\<close>, \<^verbatim>\<open>ANSWER-XYZ\<close> to \<^verbatim>\<open>A1\<close>.\<close>

theorem relay_payload_opaque_witness:
  "isLive relay_a1_b2 ''B2'' \<and>
   snd (relay_step relay_a1_b2
         (FromClient ''A1'' (CallUserMsg ''B2'' ''OFFER-XYZ'' ''A1'' ''Alice''))) =
     [(''B2'', CallUserEv ''OFFER-XYZ'' ''A1'' ''Alice'')] \<and>
   isLive relay_a1_b2 ''A1'' \<and>
   snd (relay_step relay_a1_b2 (FromClient ''B2'' (AnswerCallMsg ''A1'' ''ANSWER-XYZ''))) =
     [(''A1'', CallAcceptedEv ''ANSWER-XYZ'')]"
proof -
  have b: "isLive relay_a1_b2 ''B2''" and a: "isLive relay_a1_b2 ''A1''"
    by (simp_all add: relay_a1_b2_eq isLive_def)
  from relay_payload_opaque [OF b, of "''A1''" "''OFFER-XYZ''" "''A1''" "''Alice''" "''ANSWER-XYZ''"]
       relay_payload_opaque [OF a, of "''B2''" "''OFFER-XYZ''" "''A1''" "''Alice''" "''ANSWER-XYZ''"]
       a b
  show ?thesis by simp
qed

section \<open>Properties of the participant\<close>

lemma b2_active_eq:
  "b2_active = \<lparr>callAccepted = True, callEnded = False,
     call = IncomingCall ''A1'' ''Alice'' (Some ''OFFER-XYZ''),
     stream = Some [1, 2], userStream = Some [3, 4], name = [], me = ''B2'',
     connectionStatus = StConnected, isCalling = False, connectionRef = Some b2_peer,
     callAcceptedRef = True, callRef = IncomingCall ''A1'' ''Alice'' (Some ''OFFER-XYZ''),
     userStreamRef = Some [3, 4], endedTracks = {}\<rparr>"
  by (simp add: b2_active_def b2_peer_def initial_def on_me_def setStream_def on_callUser_def
      sync_refs_def answerCall_def signal_given_def peer_stream_ready_def Let_def)

lemma a1_ready_eq:
  "a1_ready = initial\<lparr>me := ''A1'', connectionStatus := StConnected, stream := Some [5, 6]\<rparr>"
  by (simp add: a1_ready_def initial_def on_me_def setStream_def sync_refs_def)

lemma a1_active_eq:
  "a1_active = \<lparr>callAccepted = True, callEnded = False, call = EmptyCall,
     stream = Some [5, 6], userStream = Some [7, 8], name = [], me = ''A1'',
     connectionStatus = StConnected, isCalling = False, connectionRef = Some a1_peer,
     callAcceptedRef = True, callRef = EmptyCall, userStreamRef = Some [7, 8],
     endedTracks = {}\<rparr>"
proof -
  have nb: "\<not> blank ''B2''" by (simp add: blank_def js_space_def)
  show ?thesis
    by (simp add: a1_active_def a1_peer_def initial_def on_me_def setStream_def
        sync_refs_def callUser_def nb on_callAccepted_def peer_stream_ready_def
        peer_connect_def Let_def)
qed

lemma a1_active_in_call: "isInCall a1_active"
  by (simp add: a1_active_eq isInCall_def)

lemma a1_no_camera_eq:
  "a1_no_camera = initial\<lparr>me := ''A1'', connectionStatus := StConnected\<rparr>"
  by (simp add: a1_no_camera_def initial_def on_me_def sync_refs_def)

lemma handleCallEnd_fields:
  "callEnded (fst (handleCallEnd c u s))"
  "\<not> callAccepted (fst (handleCallEnd c u s))"
  "\<not> isCalling (fst (handleCallEnd c u s))"
  "call (fst (handleCallEnd c u s)) = EmptyCall"
  "connectionRef (fst (handleCallEnd c u s)) = None"
  "userStream (fst (handleCallEnd c u s)) = None"
  "stream (fst (handleCallEnd c u s)) = stream s"
  "me (fst (handleCallEnd c u s)) = me s"
  "name (fst (handleCallEnd c u s)) = name s"
  "endedTracks (fst (handleCallEnd c u s)) =
     endedTracks s \<union> set (tracks_of c) \<union> set (tracks_of u)"
  "callAcceptedRef (fst (handleCallEnd c u s)) = callAcceptedRef s"
  "callRef (fst (handleCallEnd c u s)) = callRef s"
  "userStreamRef (fst (handleCallEnd c u s)) = userStreamRef s"
  by (simp_all add: handleCallEnd_def)

lemma handleCallEnd_effects:
  "snd (handleCallEnd c u s) =
     (case connectionRef s of None \<Rightarrow> [] | Some p \<Rightarrow> [PeerDestroy p]) @
     map TrackStop (tracks_of c) @ map TrackStop (tracks_of u)"
  by (simp add: handleCallEnd_def)

lemma not_emit_stop: "filter is_emit (map TrackStop ts) = []"
  by (induction ts) simp_all

lemma handleCallEnd_no_emit: "filter is_emit (snd (handleCallEnd c u s)) = []"
  by (simp add: handleCallEnd_effects not_emit_stop split: option.split)

lemma cleaned_not_in_call: "\<not> isInCall (sync_refs (fst (handleCallEnd c u s)))"
  by (simp add: isInCall_def sync_refs_def handleCallEnd_def)

lemma in_call_changes:
  assumes "isInCall s" and "refs_synced s"
  shows "fst (handleCallEnd c u s) \<noteq> s"
proof
  assume eq: "fst (handleCallEnd c u s) = s"
  have "\<not> callAccepted s" using handleCallEnd_fields(2) [of c u s] eq by simp
  moreover have "call s = EmptyCall" using handleCallEnd_fields(4) [of c u s] eq by simp
  moreover have "connectionRef s = None" using handleCallEnd_fields(5) [of c u s] eq by simp
  moreover have "userStream s = None" using handleCallEnd_fields(6) [of c u s] eq by simp
  ultimately show False using assms by (simp add: isInCall_def refs_synced_def)
qed

lemma answerCall_empty_signal:
  "answerCall ok (s\<lparr>call := IncomingCall frm nm (Some [])\<rparr>) \<in>
     {(s\<lparr>call := IncomingCall frm nm (Some [])\<rparr>, []),
      (s\<lparr>call := IncomingCall frm nm (Some [])\<rparr>, [Alert ''Please enable your camera first!''])}"
  by (simp add: answerCall_def signal_given_def split: option.split)

lemma b2_active_in_call: "isInCall b2_active" "refs_synced b2_active"
  by (simp_all add: b2_active_eq isInCall_def refs_synced_def)

text \<open>
  \<^bold>\<open>C1.\<close> The property: a \<^verbatim>\<open>callEnded\<close> broadcast is ignored unless the participant is in
  a call and the id the broadcast carries is the current peer's, so that a broadcast
  naming another id, arriving in mid-call, changes nothing. The handler makes the first
  test only (lines 304-309) and does no more with the id than log it (line 310). The code
  departs from the property at this input: \<^verbatim>\<open>B2\<close> is in a call with \<^verbatim>\<open>A1\<close> (\<^verbatim>\<open>call.from\<close> is
  \<^verbatim>\<open>A1\<close>) when \<^verbatim>\<open>C3\<close>, a third participant, is lost; the relay broadcasts \<^verbatim>\<open>callEnded\<close> with
  the id \<^verbatim>\<open>C3\<close> to \<^verbatim>\<open>A1\<close> and \<^verbatim>\<open>B2\<close>, and \<^verbatim>\<open>B2\<close> destroys its peer and clears its call.
\<close>

theorem callEnded_other_id_tears_down:
  "snd (relay_step relay_three (Disconnect ''C3'')) =
     [(''A1'', CallEndedEv ''C3''), (''B2'', CallEndedEv ''C3'' :: sdp server_event)] \<and>
   call b2_active = IncomingCall ''A1'' ''Alice'' (Some ''OFFER-XYZ'') \<and>
   connectionRef b2_active = Some b2_peer \<and>
   hd (snd (on_callEnded (Some ''C3'') b2_active)) = PeerDestroy b2_peer \<and>
   call (fst (on_callEnded (Some ''C3'') b2_active)) = EmptyCall \<and>
   connectionRef (fst (on_callEnded (Some ''C3'') b2_active)) = None \<and>
   userStream (fst (on_callEnded (Some ''C3'') b2_active)) = None \<and>
   fst (on_callEnded (Some ''C3'') b2_active) \<noteq> b2_active"
proof -
  have broadcast: "snd (relay_step relay_three (Disconnect ''C3'')) =
     [(''A1'', CallEndedEv ''C3''), (''B2'', CallEndedEv ''C3'' :: sdp server_event)]"
    by (simp add: on_disconnect_def io_disconnect_def relay_three_sockets)
  have before: "call b2_active = IncomingCall ''A1'' ''Alice'' (Some ''OFFER-XYZ'') \<and>
      connectionRef b2_active = Some b2_peer"
    by (simp add: b2_active_eq)
  have destroyed: "hd (snd (on_callEnded (Some ''C3'') b2_active)) = PeerDestroy b2_peer"
    using before by (simp add: on_callEnded_def b2_active_in_call handleCallEnd_effects)
  have after: "call (fst (on_callEnded (Some ''C3'') b2_active)) = EmptyCall \<and>
      connectionRef (fst (on_callEnded (Some ''C3'') b2_active)) = None \<and>
      userStream (fst (on_callEnded (Some ''C3'') b2_active)) = None"
    by (simp add: on_callEnded_def b2_active_in_call handleCallEnd_fields)
  have changed: "fst (on_callEnded (Some ''C3'') b2_active) \<noteq> b2_active"
    by (simp add: on_callEnded_def b2_active_in_call in_call_changes)
  from broadcast before destroyed after changed show ?thesis by blast
qed

lemma leaveCall_b2_active:
  "leaveCall b2_active =
     (b2_active\<lparr>callAccepted := False, callEnded := True, call := EmptyCall,
        userStream := None, connectionRef := None, endedTracks := {1, 2, 3, 4}\<rparr>,
      [PeerDestroy b2_peer, TrackStop 1, TrackStop 2, TrackStop 3, TrackStop 4])"
  by (simp add: leaveCall_def b2_active_eq handleCallEnd_def) auto

lemma after_leave_b2:
  "sync_refs (fst (leaveCall b2_active)) =
     b2_active\<lparr>callAccepted := False, callEnded := True, call := EmptyCall,
        userStream := None, connectionRef := None, endedTracks := {1, 2, 3, 4},
        callAcceptedRef := False, callRef := EmptyCall, userStreamRef := None\<rparr>"
  by (simp add: leaveCall_b2_active sync_refs_def)

text \<open>
  \<^bold>\<open>C2\<close>, as the code has it. \<^verbatim>\<open>leaveCall\<close> destroys the peer in \<^verbatim>\<open>connectionRef\<close> if there
  is one, calls \<^verbatim>\<open>stop()\<close> on every track of the local and of the remote stream, and
  resets the call state (\<^verbatim>\<open>connectionRef\<close> and \<^verbatim>\<open>userStream\<close> null, \<^verbatim>\<open>call\<close> empty,
  \<^verbatim>\<open>callAccepted\<close> and \<^verbatim>\<open>isCalling\<close> false, \<^verbatim>\<open>callEnded\<close> true), so that the participant
  is not in a call once the refs follow; it emits nothing on the socket.
\<close>

theorem leaveCall_local_teardown:
  "snd (leaveCall s) =
     (case connectionRef s of None \<Rightarrow> [] | Some p \<Rightarrow> [PeerDestroy p]) @
     map TrackStop (tracks_of (stream s)) @ map TrackStop (tracks_of (userStream s)) \<and>
   filter is_emit (snd (leaveCall s)) = [] \<and>
   set (tracks_of (stream s)) \<union> set (tracks_of (userStream s)) \<subseteq> endedTracks (fst (leaveCall s)) \<and>
   connectionRef (fst (leaveCall s)) = None \<and> userStream (fst (leaveCall s)) = None \<and>
   call (fst (leaveCall s)) = EmptyCall \<and> \<not> callAccepted (fst (leaveCall s)) \<and>
   \<not> isCalling (fst (leaveCall s)) \<and> callEnded (fst (leaveCall s)) \<and>
   \<not> isInCall (sync_refs (fst (leaveCall s)))"
proof -
  have effects: "snd (leaveCall s) =
     (case connectionRef s of None \<Rightarrow> [] | Some p \<Rightarrow> [PeerDestroy p]) @
     map TrackStop (tracks_of (stream s)) @ map TrackStop (tracks_of (userStream s))"
    by (simp add: leaveCall_def handleCallEnd_effects)
  have silent: "filter is_emit (snd (leaveCall s)) = []"
    by (simp add: leaveCall_def handleCallEnd_no_emit)
  have stopped: "set (tracks_of (stream s)) \<union> set (tracks_of (userStream s))
      \<subseteq> endedTracks (fst (leaveCall s))"
    by (auto simp: leaveCall_def handleCallEnd_fields)
  have reset: "connectionRef (fst (leaveCall s)) = None \<and> userStream (fst (leaveCall s)) = None \<and>
      call (fst (leaveCall s)) = EmptyCall \<and> \<not> callAccepted (fst (leaveCall s)) \<and>
      \<not> isCalling (fst (leaveCall s)) \<and> callEnded (fst (leaveCall s))"
    by (simp add: leaveCall_def handleCallEnd_fields)
  have idle: "\<not> isInCall (sync_refs (fst (leaveCall s)))"
    by (simp add: leaveCall_def cleaned_not_in_call)
  from effects silent stopped reset idle show ?thesis by blast
qed

text \<open>\<^verbatim>\<open>B2\<close> hangs up its call with \<^verbatim>\<open>A1\<close>.\<close>

theorem leaveCall_local_teardown_witness:
  "snd (leaveCall b2_active) =
     [PeerDestroy b2_peer, TrackStop 1, TrackStop 2, TrackStop 3, TrackStop 4] \<and>
   {1, 2, 3, 4} \<subseteq> endedTracks (fst (leaveCall b2_active)) \<and>
   \<not> isInCall (sync_refs (fst (leaveCall b2_active)))"
  using leaveCall_local_teardown [of b2_active]
  by (simp add: b2_active_eq)

text \<open>The specification's wording fails here: \<^verbatim>\<open>B2\<close> hangs up while its peer \<^verbatim>\<open>A1\<close> is live at the
  relay, and no event is emitted, so \<^verbatim>\<open>A1\<close> gets no notice over the transport.\<close>

theorem leaveCall_no_notice_counterexample:
  "isLive relay_a1_b2 ''A1'' \<and>
   call b2_active = IncomingCall ''A1'' ''Alice'' (Some ''OFFER-XYZ'') \<and>
   snd (leaveCall b2_active) =
     [PeerDestroy b2_peer, TrackStop 1, TrackStop 2, TrackStop 3, TrackStop 4] \<and>
   filter is_emit (snd (leaveCall b2_active)) = []"
  by (simp add: leaveCall_b2_active relay_a1_b2_eq isLive_def) (simp add: b2_active_eq)

text \<open>
  \<^bold>\<open>C6.\<close> With no local stream, \<^verbatim>\<open>callUser\<close> returns at once: the state is what it was,
  no peer is built and nothing is emitted; all it may do is raise the alert that asks
  for the camera.
\<close>

theorem callUser_no_stream:
  assumes "stream s = None"
  shows "fst (callUser ok ident s) = s \<and>
         filter is_peer_new (snd (callUser ok ident s)) = [] \<and>
         filter is_emit (snd (callUser ok ident s)) = [] \<and>
         (snd (callUser ok ident s) = [] \<or>
          snd (callUser ok ident s) = [Alert ''Please enable your camera first!''])"
  using assms by (simp add: callUser_def)

text \<open>\<^verbatim>\<open>A1\<close>, camera off, calls \<^verbatim>\<open>B2\<close>.\<close>

theorem callUser_no_stream_witness:
  "stream a1_no_camera = None \<and>
   callUser True ''B2'' a1_no_camera =
     (a1_no_camera, [Alert ''Please enable your camera first!''])"
proof -
  have none: "stream a1_no_camera = None"
    by (simp add: a1_no_camera_eq initial_def)
  have nb: "\<not> blank ''B2''" by (simp add: blank_def js_space_def)
  have "snd (callUser True ''B2'' a1_no_camera) = [Alert ''Please enable your camera first!'']"
    using none nb by (simp add: callUser_def)
  with callUser_no_stream [OF none, of True "''B2''"] none
  show ?thesis by (simp add: prod_eq_iff)
qed

text \<open>
  \<^bold>\<open>C7.\<close> A \<^verbatim>\<open>callEnded\<close> broadcast delivered to a participant that is not in a call
  changes nothing and has no effect; after a broadcast that tore a call down and the
  render that follows it, the participant is not in a call and a second broadcast is
  ignored in the same way; and a second broadcast that arrives even before that render
  changes nothing and has no effect either.
\<close>

theorem callEnded_idle_noop:
  "(\<not> isInCall s \<longrightarrow> on_callEnded d s = (s, [])) \<and>
   (isInCall s \<longrightarrow>
      \<not> isInCall (sync_refs (fst (on_callEnded d s))) \<and>
      on_callEnded d (sync_refs (fst (on_callEnded d s))) =
        (sync_refs (fst (on_callEnded d s)), [])) \<and>
   on_callEnded d (fst (on_callEnded d s)) = (fst (on_callEnded d s), [])"
proof -
  have idle: "on_callEnded d s = (s, [])" if "\<not> isInCall s"
    using that by (simp add: on_callEnded_def)
  have second: "\<not> isInCall (sync_refs (fst (on_callEnded d s))) \<and>
      on_callEnded d (sync_refs (fst (on_callEnded d s))) =
        (sync_refs (fst (on_callEnded d s)), [])" if "isInCall s"
    using that by (simp add: on_callEnded_def cleaned_not_in_call)
  have again: "on_callEnded d (fst (on_callEnded d s)) = (fst (on_callEnded d s), [])"
    by (simp add: on_callEnded_def handleCallEnd_def initial_def)
  from idle second again show ?thesis by blast
qed

text \<open>\<^verbatim>\<open>A1\<close> while idle; and \<^verbatim>\<open>A1\<close>, active with its peer \<^verbatim>\<open>B2\<close>, told twice that \<^verbatim>\<open>B2\<close> is
  gone.\<close>

theorem callEnded_idle_noop_witness:
  "\<not> isInCall a1_ready \<and> on_callEnded (Some ''B2'') a1_ready = (a1_ready, []) \<and>
   isInCall a1_active \<and>
   \<not> isInCall (sync_refs (fst (on_callEnded (Some ''B2'') a1_active))) \<and>
   on_callEnded (Some ''B2'') (sync_refs (fst (on_callEnded (Some ''B2'') a1_active))) =
     (sync_refs (fst (on_callEnded (Some ''B2'') a1_active)), [])"
proof -
  have idle: "\<not> isInCall a1_ready"
    by (simp add: a1_ready_eq initial_def isInCall_def)
  from callEnded_idle_noop [of a1_ready "Some ''B2''"]
       callEnded_idle_noop [of a1_active "Some ''B2''"] idle a1_active_in_call
  show ?thesis by blast
qed

text \<open>
  \<^bold>\<open>C8.\<close> The property: a second run of \<^verbatim>\<open>handleCallEnd\<close> destroys the peer no second time
  and releases no media a second time. \<^verbatim>\<open>handleCallEnd\<close> clears \<^verbatim>\<open>connectionRef\<close> and
  \<^verbatim>\<open>userStream\<close> after releasing them, but never the local \<^verbatim>\<open>stream\<close> (lines 197-201). The
  code departs from the property at this input: \<^verbatim>\<open>B2\<close>, in its call, hangs up, React
  renders, and \<^verbatim>\<open>B2\<close> hangs up again. The second run destroys no peer, but the local
  stream is still in the state, so \<^verbatim>\<open>stop()\<close> is called again on its two tracks, which the
  first run had stopped already.
\<close>

theorem second_cleanup_stops_again:
  "snd (leaveCall b2_active) =
     [PeerDestroy b2_peer, TrackStop 1, TrackStop 2, TrackStop 3, TrackStop 4] \<and>
   endedTracks (fst (leaveCall b2_active)) = {1, 2, 3, 4} \<and>
   snd (leaveCall (sync_refs (fst (leaveCall b2_active)))) = [TrackStop 1, TrackStop 2]"
proof -
  have "snd (leaveCall (sync_refs (fst (leaveCall b2_active)))) = [TrackStop 1, TrackStop 2]"
    unfolding after_leave_b2 by (simp add: leaveCall_def handleCallEnd_def b2_active_eq)
  then show ?thesis by (simp add: leaveCall_b2_active)
qed

text \<open>
  \<^bold>\<open>C9.\<close> When the id to call is the participant's own, \<^verbatim>\<open>callUser\<close> returns with the
  state as it was, builds no peer and emits nothing.
\<close>

theorem callUser_self:
  assumes "ident = me s"
  shows "fst (callUser ok ident s) = s \<and>
         filter is_peer_new (snd (callUser ok ident s)) = [] \<and>
         filter is_emit (snd (callUser ok ident s)) = []"
  using assms by (simp add: callUser_def split: option.split)

text \<open>\<^verbatim>\<open>A1\<close>, camera on, calls \<^verbatim>\<open>A1\<close>.\<close>

theorem callUser_self_witness:
  "''A1'' = me a1_ready \<and>
   callUser True ''A1'' a1_ready = (a1_ready, [Alert ''You cannot call yourself!''])"
proof -
  have m: "''A1'' = me a1_ready" by (simp add: a1_ready_eq)
  have nb: "\<not> blank ''A1''" by (simp add: blank_def js_space_def)
  have st: "stream a1_ready = Some [5, 6]" by (simp add: a1_ready_eq)
  have "snd (callUser True ''A1'' a1_ready) = [Alert ''You cannot call yourself!'']"
    using nb st m by (simp add: callUser_def)
  with callUser_self [OF m, of True] m show ?thesis by (simp add: prod_eq_iff)
qed



end
